theory Spec2Isabelle
  imports Complex_Main
begin

section \<open>Text\<close>

text \<open>
  A Python \<open>str\<close> is a sequence of Unicode code points. A code point is a natural number
  and a string a list of them, so that \<open>length\<close> counts what Python's \<open>len\<close> counts and
  the Japanese trigger phrases are ordinary values.
\<close>

type_synonym ustr = "nat list"

definition asc :: "string \<Rightarrow> ustr" where
  "asc s = map of_char s"

abbreviation NL :: nat where "NL \<equiv> 10"

text \<open>
  \<open>str.isspace\<close>, which is also what \<open>\s\<close> matches in a \<open>str\<close> pattern and what
  \<open>str.strip()\<close> removes: U+0009..U+000D, U+001C..U+0020, U+0085, U+00A0, U+1680,
  U+2000..U+200A, U+2028, U+2029, U+202F, U+205F, U+3000.
\<close>

definition isspace :: "nat \<Rightarrow> bool" where
  "isspace c \<longleftrightarrow>
     (9 \<le> c \<and> c \<le> 13) \<or> (28 \<le> c \<and> c \<le> 32) \<or> c = 133 \<or> c = 160 \<or> c = 5760 \<or>
     (8192 \<le> c \<and> c \<le> 8202) \<or> c = 8232 \<or> c = 8233 \<or> c = 8239 \<or> c = 8287 \<or> c = 12288"

definition rstrip :: "ustr \<Rightarrow> ustr" where
  "rstrip s = rev (dropWhile isspace (rev s))"

definition strip :: "ustr \<Rightarrow> ustr" where
  "strip s = rstrip (dropWhile isspace s)"

text \<open>
  \<open>str.isdecimal\<close>, which is what \<open>\d\<close> matches in a \<open>str\<close> pattern: the code points of
  category Nd (Unicode 14, the tables of CPython 3.11), as inclusive ranges.
\<close>

definition decimal_ranges :: "(nat \<times> nat) list" where
  "decimal_ranges =
    [(48, 57), (1632, 1641), (1776, 1785), (1984, 1993), (2406, 2415), (2534, 2543),
     (2662, 2671), (2790, 2799), (2918, 2927), (3046, 3055), (3174, 3183), (3302, 3311),
     (3430, 3439), (3558, 3567), (3664, 3673), (3792, 3801), (3872, 3881), (4160, 4169),
     (4240, 4249), (6112, 6121), (6160, 6169), (6470, 6479), (6608, 6617), (6784, 6793),
     (6800, 6809), (6992, 7001), (7088, 7097), (7232, 7241), (7248, 7257), (42528, 42537),
     (43216, 43225), (43264, 43273), (43472, 43481), (43504, 43513), (43600, 43609),
     (44016, 44025), (65296, 65305), (66720, 66729), (68912, 68921), (69734, 69743),
     (69872, 69881), (69942, 69951), (70096, 70105), (70384, 70393), (70736, 70745),
     (70864, 70873), (71248, 71257), (71360, 71369), (71472, 71481), (71904, 71913),
     (72016, 72025), (72784, 72793), (73040, 73049), (73120, 73129), (92768, 92777),
     (92864, 92873), (93008, 93017), (120782, 120831), (123200, 123209), (123632, 123641),
     (125264, 125273), (130032, 130041)]"

definition isdecimal :: "nat \<Rightarrow> bool" where
  "isdecimal c = list_ex (\<lambda>(lo, hi). lo \<le> c \<and> c \<le> hi) decimal_ranges"

section \<open>Regular-expression substitution (\<open>re.sub\<close>, \<open>Pattern.sub\<close>)\<close>

text \<open>
  Each pattern of the program is a matcher: given the character before the current position
  (\<open>None\<close> at the start of the string; this is what \<open>^\<close> and a lookbehind inspect) and the
  rest of the string from the position on, it returns the length of the match the regex
  engine finds anchored there, or \<open>None\<close>.

  \<open>re_sub\<close> is the scan of \<open>re.sub\<close> (CPython 3.7 and later): try the pattern at the
  current position; on a match emit the replacement and continue behind the match, where the
  pattern still sees the consumed characters of the original string to its left; otherwise
  copy one character. An empty match emits the replacement and copies the next character
  (no pattern of this program has a non-empty match where its preferred match is empty).
  The replacement is a function of the matched text, which covers the group reference \<open>\1\<close>.
\<close>

type_synonym matcher = "nat option \<Rightarrow> ustr \<Rightarrow> nat option"

fun re_sub :: "matcher \<Rightarrow> (ustr \<Rightarrow> ustr) \<Rightarrow> nat option \<Rightarrow> ustr \<Rightarrow> ustr" where
  "re_sub m rep prev [] = (case m prev [] of None \<Rightarrow> [] | Some _ \<Rightarrow> rep [])"
| "re_sub m rep prev (c # cs) =
     (case m prev (c # cs) of
        None \<Rightarrow> c # re_sub m rep (Some c) cs
      | Some 0 \<Rightarrow> rep [] @ c # re_sub m rep (Some c) cs
      | Some (Suc k) \<Rightarrow>
          rep (c # take k cs) @ re_sub m rep (Some (last (c # take k cs))) (drop k cs))"

text \<open>\<open>re.search\<close>: is there a match anywhere?\<close>

fun re_search :: "matcher \<Rightarrow> nat option \<Rightarrow> ustr \<Rightarrow> bool" where
  "re_search m prev [] = (m prev [] \<noteq> None)"
| "re_search m prev (c # cs) = (m prev (c # cs) \<noteq> None \<or> re_search m (Some c) cs)"

text \<open>\<open>^\<close> under \<open>re.MULTILINE\<close>: at the start of the string or right after a newline.\<close>

definition at_bol :: "nat option \<Rightarrow> bool" where
  "at_bol prev \<longleftrightarrow> (case prev of None \<Rightarrow> True | Some p \<Rightarrow> p = NL)"

text \<open>Length of the longest prefix whose characters all satisfy \<open>P\<close> (a greedy \<open>[..]*\<close>).\<close>

definition run_length :: "(nat \<Rightarrow> bool) \<Rightarrow> ustr \<Rightarrow> nat" where
  "run_length P s = length (takeWhile P s)"

definition starts_with :: "ustr \<Rightarrow> ustr \<Rightarrow> bool" where
  "starts_with p s \<longleftrightarrow> take (length p) s = p"

text \<open>
  \<open>.+?\<close> followed by the literal \<open>cl\<close>: the least \<open>k \<ge> 1\<close> such that the first \<open>k\<close>
  characters are not newlines and \<open>cl\<close> follows them.
\<close>

fun lazy_dot :: "ustr \<Rightarrow> ustr \<Rightarrow> nat option" where
  "lazy_dot cl [] = None"
| "lazy_dot cl (c # cs) =
     (if c = NL then None
      else if starts_with cl cs then Some 1
      else map_option Suc (lazy_dot cl cs))"

text \<open>\<open>[\s\S]*?\<close> followed by the literal \<open>cl\<close>: the least \<open>k \<ge> 0\<close> such that \<open>cl\<close> follows.\<close>

fun lazy_any :: "ustr \<Rightarrow> ustr \<Rightarrow> nat option" where
  "lazy_any cl [] = (if cl = [] then Some 0 else None)"
| "lazy_any cl (c # cs) =
     (if starts_with cl (c # cs) then Some 0 else map_option Suc (lazy_any cl cs))"

text \<open>\<open>\n{3,}\<close>: a run of at least three newlines, taken whole.\<close>

definition m_newlines :: matcher where
  "m_newlines prev s = (let n = run_length (\<lambda>c. c = NL) s in if 3 \<le> n then Some n else None)"

definition collapse_newlines :: "ustr \<Rightarrow> ustr" where
  "collapse_newlines s = re_sub m_newlines (\<lambda>_. [NL, NL]) None s"

section \<open>Voice commands (voice\_commands.py)\<close>

text \<open>
  \<open>COMMANDS\<close>: (trigger, replacement) in source order. The triggers are Japanese phrases,
  given by code point; the comment on each line is the meaning of the trigger.
\<close>

definition COMMANDS :: "(ustr \<times> ustr) list" where
  "COMMANDS =
    [([26032, 12375, 12356, 27573, 33853], [10, 10]), \<comment> \<open>new paragraph\<close>
     ([27573, 33853, 22793, 12360, 12390], [10, 10]), \<comment> \<open>change paragraph (te-form)\<close>
     ([27573, 33853, 22793, 12360], [10, 10]), \<comment> \<open>change paragraph\<close>
     ([25913, 34892, 12375, 12390], [10]), \<comment> \<open>line break (te-form)\<close>
     ([25913, 34892], [10]), \<comment> \<open>line break\<close>
     ([22823, 35211, 20986, 12375], [10, 10, 35, 32]), \<comment> \<open>big heading\<close>
     ([35211, 20986, 12375, 51], [10, 10, 35, 35, 35, 32]), \<comment> \<open>heading 3\<close>
     ([35211, 20986, 12375, 50], [10, 10, 35, 35, 32]), \<comment> \<open>heading 2\<close>
     ([35211, 20986, 12375, 49], [10, 10, 35, 32]), \<comment> \<open>heading 1\<close>
     ([35211, 20986, 12375], [10, 10, 35, 35, 32]), \<comment> \<open>heading\<close>
     ([23567, 35211, 20986, 12375], [10, 10, 35, 35, 35, 32]), \<comment> \<open>small heading\<close>
     ([31623, 26465, 26360, 12365, 38283, 22987], [10, 10]), \<comment> \<open>bullet list start\<close>
     ([27425, 12398, 38917, 30446], [10, 45, 32]), \<comment> \<open>next item\<close>
     ([38917, 30446], [10, 45, 32]), \<comment> \<open>item\<close>
     ([12522, 12473, 12488], [10, 45, 32]), \<comment> \<open>list\<close>
     ([12467, 12540, 12489, 12502, 12525, 12483, 12463, 38283, 22987],
      [10, 96, 96, 96, 10]), \<comment> \<open>code block start\<close>
     ([12467, 12540, 12489, 12502, 12525, 12483, 12463, 32066, 20102],
      [10, 96, 96, 96, 10]), \<comment> \<open>code block end\<close>
     ([12467, 12540, 12489, 38283, 22987], [10, 96, 96, 96, 10]), \<comment> \<open>code start\<close>
     ([12467, 12540, 12489, 32066, 20102], [10, 96, 96, 96, 10]), \<comment> \<open>code end\<close>
     ([12452, 12531, 12521, 12452, 12531, 12467, 12540, 12489], [96]), \<comment> \<open>inline code\<close>
     ([22826, 23383, 38283, 22987], [42, 42]), \<comment> \<open>bold start\<close>
     ([22826, 23383, 32066, 20102], [42, 42]), \<comment> \<open>bold end\<close>
     ([22826, 23383], [42, 42]), \<comment> \<open>bold\<close>
     ([26012, 20307, 38283, 22987], [42]), \<comment> \<open>italic start\<close>
     ([26012, 20307, 32066, 20102], [42]), \<comment> \<open>italic end\<close>
     ([27700, 24179, 32218], [10, 10, 45, 45, 45, 10, 10]), \<comment> \<open>horizontal line\<close>
     ([21306, 20999, 12426, 32218], [10, 10, 45, 45, 45, 10, 10]), \<comment> \<open>separator line\<close>
     ([24341, 29992, 38283, 22987], [10, 10, 62, 32]), \<comment> \<open>quote start\<close>
     ([24341, 29992], [10, 62, 32]) \<comment> \<open>quote\<close>
    ]"

text \<open>
  The character class \<open>[\s\<dots>,.\n]\<close> of the compiled pattern: whitespace, the ideographic
  comma U+3001 and full stop U+3002, the fullwidth comma U+FF0C and full stop U+FF0E, and
  the ASCII comma and full stop.
\<close>

definition is_boundary :: "nat \<Rightarrow> bool" where
  "is_boundary c \<longleftrightarrow>
     isspace c \<or> c = 12289 \<or> c = 12290 \<or> c = 65292 \<or> c = 65294 \<or> c = 44 \<or> c = 46"

text \<open>
  The pattern compiled for one trigger,
  \<open>(?:^|(?<=[B]))(cmd)(?:[B]|$)\<close> with \<open>re.MULTILINE\<close>, \<open>B\<close> the class above.
  \<open>^\<close> holds at the start and after a newline, and a newline is in \<open>B\<close>; \<open>$\<close> holds at the
  end and before a newline, where the first alternative has already taken the newline.
\<close>

definition cmd_match :: "ustr \<Rightarrow> matcher" where
  "cmd_match cmd prev s =
     (if (case prev of None \<Rightarrow> True | Some p \<Rightarrow> is_boundary p) \<and> starts_with cmd s then
        (case drop (length cmd) s of
           [] \<Rightarrow> Some (length cmd)
         | d # _ \<Rightarrow> if is_boundary d then Some (length cmd + 1) else None)
      else None)"


definition rule_sub :: "ustr \<times> ustr \<Rightarrow> ustr \<Rightarrow> ustr" where
  "rule_sub r s = re_sub (cmd_match (fst r)) (\<lambda>_. snd r) None s"

record voice_command_processor =
  enabled :: bool
  commands :: "(ustr \<times> ustr) list"

text \<open>
  \<open>__init__\<close>: the custom commands go in front of the built-in ones, then a stable sort by
  trigger length, longest first (\<open>list.sort\<close> with \<open>reverse=True\<close> keeps the order of equal
  keys). The compiled patterns are in the order of \<open>commands\<close>.
\<close>

definition vcp_init :: "bool \<Rightarrow> (ustr \<times> ustr) list \<Rightarrow> voice_command_processor" where
  "vcp_init en custom_commands =
     \<lparr>enabled = en,
      commands = sort_key (\<lambda>x. - int (length (fst x))) (custom_commands @ COMMANDS)\<rparr>"

fun apply_patterns :: "(ustr \<times> ustr) list \<Rightarrow> ustr \<Rightarrow> ustr" where
  "apply_patterns [] result = result"
| "apply_patterns (r # rs) result = apply_patterns rs (rule_sub r result)"

definition process :: "voice_command_processor \<Rightarrow> ustr \<Rightarrow> ustr" where
  "process vcp text =
     (if \<not> enabled vcp \<or> text = [] then text
      else rstrip (dropWhile (\<lambda>c. c = NL)
             (collapse_newlines (apply_patterns (commands vcp) text))))"

definition has_commands :: "voice_command_processor \<Rightarrow> ustr \<Rightarrow> bool" where
  "has_commands vcp text =
     (if \<not> enabled vcp \<or> text = [] then False
      else list_ex (\<lambda>r. re_search (cmd_match (fst r)) None text) (commands vcp))"

section \<open>Plain-text reducer (app\_profiles.py, \<open>_strip_markdown\<close>)\<close>

text \<open>\<open>^#{1,6}\s+\<close>: one to six \<open>#\<close> at a line start, followed by whitespace, all of it.\<close>

definition m_heading :: matcher where
  "m_heading prev s =
     (let h = run_length (\<lambda>c. c = 35) s; w = run_length isspace (drop h s)
      in if at_bol prev \<and> 1 \<le> h \<and> h \<le> 6 \<and> 1 \<le> w then Some (h + w) else None)"

text \<open>
  \<open>op(.+?)cl\<close> for the emphasis and inline-code patterns; the replacement \<open>\1\<close> is the
  matched text without its opening and closing marks.
\<close>

definition m_wrap :: "ustr \<Rightarrow> ustr \<Rightarrow> matcher" where
  "m_wrap op cl prev s =
     (if starts_with op s then
        map_option (\<lambda>k. length op + k + length cl) (lazy_dot cl (drop (length op) s))
      else None)"

definition unwrap :: "ustr \<Rightarrow> ustr \<Rightarrow> ustr \<Rightarrow> ustr" where
  "unwrap op cl s =
     re_sub (m_wrap op cl) (\<lambda>mt. take (length mt - length op - length cl) (drop (length op) mt))
       None s"

text \<open>\<open>```[\s\S]*?```\<close>: from a fence to the next fence.\<close>

definition m_fence :: matcher where
  "m_fence prev s =
     (if starts_with [96, 96, 96] s then
        map_option (\<lambda>k. 3 + k + 3) (lazy_any [96, 96, 96] (drop 3 s))
      else None)"

text \<open>\<open>^[\s]*[-*+]\s+\<close>\<close>

definition m_bullet :: matcher where
  "m_bullet prev s =
     (let w1 = run_length isspace s; r = drop w1 s
      in case r of
           [] \<Rightarrow> None
         | d # r' \<Rightarrow>
             (let w2 = run_length isspace r'
              in if at_bol prev \<and> (d = 45 \<or> d = 42 \<or> d = 43) \<and> 1 \<le> w2
                 then Some (w1 + 1 + w2) else None))"

text \<open>\<open>^[\s]*\d+\.\s+\<close>\<close>

definition m_numbered :: matcher where
  "m_numbered prev s =
     (let w1 = run_length isspace s; r = drop w1 s; n = run_length isdecimal r
      in case drop n r of
           [] \<Rightarrow> None
         | d # r' \<Rightarrow>
             (let w2 = run_length isspace r'
              in if at_bol prev \<and> 1 \<le> n \<and> d = 46 \<and> 1 \<le> w2
                 then Some (w1 + n + 1 + w2) else None))"

text \<open>\<open>^>\s+\<close>\<close>

definition m_quote :: matcher where
  "m_quote prev s =
     (case s of
        [] \<Rightarrow> None
      | d # r \<Rightarrow>
          (let w = run_length isspace r
           in if at_bol prev \<and> d = 62 \<and> 1 \<le> w then Some (1 + w) else None))"

text \<open>\<open>^---+$\<close>: a line of at least three hyphens and nothing else.\<close>

definition m_rule :: matcher where
  "m_rule prev s =
     (let n = run_length (\<lambda>c. c = 45) s
      in if at_bol prev \<and> 3 \<le> n \<and> (case drop n s of [] \<Rightarrow> True | d # _ \<Rightarrow> d = NL)
         then Some n else None)"

definition del :: "matcher \<Rightarrow> ustr \<Rightarrow> ustr" where
  "del m s = re_sub m (\<lambda>_. []) None s"

definition strip_markdown :: "ustr \<Rightarrow> ustr" where
  "strip_markdown text =
     (let result = del m_heading text;
          result = unwrap [42, 42] [42, 42] result;
          result = unwrap [42] [42] result;
          result = unwrap [95, 95] [95, 95] result;
          result = unwrap [95] [95] result;
          result = unwrap [96] [96] result;
          result = del m_fence result;
          result = del m_bullet result;
          result = del m_numbered result;
          result = del m_quote result;
          result = del m_rule result;
          result = collapse_newlines result
      in strip result)"

section \<open>Destination profiles (app\_profiles.py)\<close>

text \<open>
  A profile is a Python dict, an object that is reached through references and mutated in
  place. The store maps addresses to dicts; \<open>fresh\<close> is the next unused address. Dict keys are
  the ASCII field names, values are strings or booleans.
\<close>

datatype pyval = VStr ustr | VBool bool

type_synonym pydict = "(string \<times> pyval) list"

type_synonym addr = nat

record store =
  cells :: "addr \<Rightarrow> pydict"
  fresh :: addr

fun dict_set :: "pydict \<Rightarrow> string \<Rightarrow> pyval \<Rightarrow> pydict" where
  "dict_set [] k v = [(k, v)]"
| "dict_set ((k', v') # d) k v = (if k' = k then (k, v) # d else (k', v') # dict_set d k v)"

definition dict_get :: "pydict \<Rightarrow> string \<Rightarrow> pyval \<Rightarrow> pyval" where
  "dict_get d k dflt = (case map_of d k of None \<Rightarrow> dflt | Some v \<Rightarrow> v)"

fun truthy :: "pyval \<Rightarrow> bool" where
  "truthy (VBool b) = b"
| "truthy (VStr s) = (s \<noteq> [])"

definition mk_profile :: "ustr \<Rightarrow> string \<Rightarrow> bool \<Rightarrow> bool \<Rightarrow> pydict" where
  "mk_profile name mode strip_md newline =
     [(''name'', VStr name), (''format_mode'', VStr (asc mode)),
      (''strip_markdown'', VBool strip_md), (''add_trailing_newline'', VBool newline)]"

text \<open>
  \<open>DEFAULT_PROFILES\<close> in source order: the key and the dict it maps to. The module creates
  the sixteen dicts once, at addresses 0 to 15, and \<open>FALLBACK_PROFILE\<close> at address 16.
  The Japanese display names are given by code point.
\<close>

definition DEFAULT_PROFILES :: "(ustr \<times> pydict) list" where
  "DEFAULT_PROFILES =
    [(asc ''Google Chrome'', mk_profile [12502, 12521, 12454, 12470] ''auto'' False False),
     (asc ''Safari'', mk_profile (asc ''Safari'') ''auto'' False False),
     (asc ''Arc'', mk_profile (asc ''Arc'') ''auto'' False False),
     (asc ''Firefox'', mk_profile (asc ''Firefox'') ''auto'' False False),
     (asc ''Slack'', mk_profile (asc ''Slack'') ''plain'' True False),
     (asc ''LINE'', mk_profile (asc ''LINE'') ''plain'' True False),
     (asc ''Discord'', mk_profile (asc ''Discord'') ''auto'' False False),
     (asc ''Messages'', mk_profile [12513, 12483, 12475, 12540, 12472] ''plain'' True False),
     (asc ''Mail'', mk_profile [12513, 12540, 12523] ''plain'' True True),
     (asc ''Notes'', mk_profile [12513, 12514] ''structured'' False True),
     (asc ''Notion'', mk_profile (asc ''Notion'') ''structured'' False False),
     (asc ''Obsidian'', mk_profile (asc ''Obsidian'') ''structured'' False True),
     (asc ''Code'', mk_profile (asc ''VS Code'') ''auto'' False True),
     (asc ''Cursor'', mk_profile (asc ''Cursor'') ''auto'' False True),
     (asc ''Terminal'', mk_profile [12479, 12540, 12511, 12490, 12523] ''plain'' True False),
     (asc ''iTerm2'', mk_profile (asc ''iTerm2'') ''plain'' True False)]"

definition FALLBACK_PROFILE :: pydict where
  "FALLBACK_PROFILE = mk_profile [12487, 12501, 12457, 12523, 12488] ''auto'' False False"

definition FALLBACK_ADDR :: addr where
  "FALLBACK_ADDR = 16"

definition module_store :: store where
  "module_store =
     \<lparr>cells = (\<lambda>a. if a < 16 then snd (DEFAULT_PROFILES ! a)
                   else if a = 16 then FALLBACK_PROFILE else []),
      fresh = 17\<rparr>"

text \<open>
  \<open>self._profiles\<close> is an insertion-ordered dict from keys to references. \<open>dict.update\<close>
  overwrites the reference of a key that is present and appends a new key at the end.
\<close>

fun refs_update :: "(ustr \<times> addr) list \<Rightarrow> (ustr \<times> addr) list \<Rightarrow> (ustr \<times> addr) list" where
  "refs_update t [] = t"
| "refs_update t ((k, a) # ps) =
     refs_update (if k \<in> fst ` set t then map (\<lambda>(k', a'). if k' = k then (k', a) else (k', a')) t
                  else t @ [(k, a)]) ps"

record app_profile_manager =
  apm_enabled :: bool
  profiles :: "(ustr \<times> addr) list"

text \<open>
  \<open>__init__\<close>: \<open>dict(DEFAULT_PROFILES)\<close> copies the table of references, not the dicts.
  Custom profiles are references to dicts of the caller.
\<close>

definition apm_init :: "(ustr \<times> addr) list \<Rightarrow> bool \<Rightarrow> app_profile_manager" where
  "apm_init custom en =
     \<lparr>apm_enabled = en,
      profiles = refs_update (zip (map fst DEFAULT_PROFILES) [0 ..< 16]) custom\<rparr>"

text \<open>\<open>x in y\<close> for strings: \<open>x\<close> occurs in \<open>y\<close> as a contiguous substring.\<close>

fun contains :: "ustr \<Rightarrow> ustr \<Rightarrow> bool" where
  "contains x [] = (x = [])"
| "contains x (c # cs) = (starts_with x (c # cs) \<or> contains x cs)"

definition annotate :: "store \<Rightarrow> addr \<Rightarrow> ustr \<Rightarrow> store" where
  "annotate st a app_name =
     st\<lparr>cells := (cells st)(a := dict_set (cells st a) ''_app_name'' (VStr app_name))\<rparr>"

text \<open>
  \<open>get_profile\<close> returns a reference and the store it leaves behind. \<open>lower\<close> is
  \<open>str.lower\<close>; \<open>active_app\<close> is what \<open>get_active_app()\<close> reports (it catches its own
  errors and then reports the empty string).
\<close>

definition get_profile ::
  "(ustr \<Rightarrow> ustr) \<Rightarrow> ustr \<Rightarrow> app_profile_manager \<Rightarrow> ustr option \<Rightarrow> store \<Rightarrow> addr \<times> store" where
  "get_profile lower active_app mgr app_name_arg st =
     (if \<not> apm_enabled mgr then (FALLBACK_ADDR, st)
      else
        let app_name = (case app_name_arg of None \<Rightarrow> active_app | Some n \<Rightarrow> n) in
        if app_name = [] then (FALLBACK_ADDR, st)
        else
          case map_of (profiles mgr) app_name of
            Some a \<Rightarrow> (a, annotate st a app_name)
          | None \<Rightarrow>
              (case find (\<lambda>(key, a). contains (lower key) (lower app_name)
                                       \<or> contains (lower app_name) (lower key)) (profiles mgr) of
                 Some (key, a) \<Rightarrow> (a, annotate st a app_name)
               | None \<Rightarrow>
                   (fresh st,
                    annotate (st\<lparr>cells := (cells st)(fresh st := cells st FALLBACK_ADDR),
                                  fresh := Suc (fresh st)\<rparr>) (fresh st) app_name)))"

definition apply_profile :: "ustr \<Rightarrow> pydict \<Rightarrow> ustr" where
  "apply_profile text profile =
     (if text = [] then text
      else
        let result = text;
            result = (if truthy (dict_get profile ''strip_markdown'' (VBool False))
                      then strip_markdown result else result);
            result = (if truthy (dict_get profile ''add_trailing_newline'' (VBool False))
                      then (if result \<noteq> [] \<and> last result = NL then result else result @ [NL])
                      else result)
        in result)"

text \<open>\<open>str.lower\<close> on ASCII letters, for concrete runs.\<close>

definition ascii_lower :: "ustr \<Rightarrow> ustr" where
  "ascii_lower s = map (\<lambda>c. if 65 \<le> c \<and> c \<le> 90 then c + 32 else c) s"

section \<open>Formatters (formatter.py)\<close>

text \<open>
  A raised exception: its class, as far as the handlers of the program tell classes apart,
  and its message. \<open>NonException\<close> stands for the classes under \<open>BaseException\<close> that
  \<open>except Exception\<close> does not catch (\<open>KeyboardInterrupt\<close>, \<open>SystemExit\<close>).
\<close>

datatype exn_class = ImportError | OSError | OtherException | NonException

datatype exn = Exn exn_class ustr

fun is_Exception :: "exn \<Rightarrow> bool" where
  "is_Exception (Exn c m) = (c \<noteq> NonException)"

fun is_ImportError :: "exn \<Rightarrow> bool" where
  "is_ImportError (Exn c m) = (c = ImportError)"

fun message :: "exn \<Rightarrow> ustr" where
  "message (Exn c m) = m"

text \<open>The messages that the program reports through \<open>on_progress\<close> and \<open>_update_status\<close>.\<close>

datatype status_msg =
    StIdle | StRecording | StStopping | StNoData | StLoadingModel | StNoSpeech
  | StDestination ustr | StFormatting | StApiError ustr | StFormatDone
  | StOffline | StOfflineDone | StPasted | StCopied | StError ustr

text \<open>
  What the Gemini client does in one call of \<open>Formatter.format_text\<close>:
  \<open>construct\<close> is the outcome of importing \<open>google.genai\<close> and building the client when none
  is cached, \<open>import_types\<close> that of \<open>from google.genai import types\<close>, \<open>generate\<close> that
  of the request with a configuration and \<open>generate_plain\<close> that of the request without;
  a request that returns gives \<open>response.text\<close>, which may be \<open>None\<close>.
\<close>

record remote =
  construct :: "exn option"
  import_types :: "exn option"
  generate :: "exn + ustr option"
  generate_plain :: "exn + ustr option"

record formatter =
  client_cached :: bool

text \<open>\<open>_get_client\<close>: the cached client, or a new one; it has no handler of its own.\<close>

definition get_client :: "remote \<Rightarrow> formatter \<Rightarrow> formatter \<times> exn option" where
  "get_client rm fm =
     (if client_cached fm then (fm, None)
      else case construct rm of
             Some e \<Rightarrow> (fm, Some e)
           | None \<Rightarrow> (fm\<lparr>client_cached := True\<rparr>, None))"

text \<open>\<open>response.text.strip() if response.text else raw_text\<close>\<close>

definition response_text :: "ustr option \<Rightarrow> ustr \<Rightarrow> ustr" where
  "response_text t raw_text =
     (case t of None \<Rightarrow> raw_text | Some x \<Rightarrow> if x = [] then raw_text else strip x)"

text \<open>
  The \<open>try\<close> statement of \<open>format_text\<close>: the body, the handler for \<open>ImportError\<close> with its
  own inner \<open>try\<close>, and the handler for \<open>Exception\<close>. The result is the progress messages
  and either the exception that leaves the statement or the value of \<open>result\<close>.
\<close>

definition request :: "remote \<Rightarrow> ustr \<Rightarrow> status_msg list \<times> (exn + ustr)" where
  "request rm raw_text =
     (let body = (case import_types rm of
                    Some e \<Rightarrow> Inl e
                  | None \<Rightarrow> (case generate rm of
                               Inl e \<Rightarrow> Inl e
                             | Inr t \<Rightarrow> Inr (response_text t raw_text)))
      in case body of
           Inr r \<Rightarrow> ([], Inr r)
         | Inl e \<Rightarrow>
             if is_ImportError e then
               (case generate_plain rm of
                  Inr t \<Rightarrow> ([], Inr (response_text t raw_text))
                | Inl e' \<Rightarrow>
                    if is_Exception e' then ([StApiError (message e')], Inr raw_text)
                    else ([], Inl e'))
             else if is_Exception e then ([StApiError (message e)], Inr raw_text)
             else ([], Inl e))"

text \<open>
  \<open>Formatter.format_text\<close>. It returns the formatter object as it leaves it, the progress
  messages in order, and either the exception it raises (\<open>Inl\<close>) or the text it returns.
\<close>

definition format_text ::
  "remote \<Rightarrow> formatter \<Rightarrow> ustr \<Rightarrow> formatter \<times> status_msg list \<times> (exn + ustr)" where
  "format_text rm fm raw_text =
     (if strip raw_text = [] then (fm, [], Inr [])
      else
        case get_client rm fm of
          (fm', Some e) \<Rightarrow> (fm', [StFormatting], Inl e)
        | (fm', None) \<Rightarrow>
            (case request rm raw_text of
               (msgs, Inl e) \<Rightarrow> (fm', StFormatting # msgs, Inl e)
             | (msgs, Inr r) \<Rightarrow> (fm', StFormatting # msgs @ [StFormatDone], Inr r)))"

text \<open>\<open>OfflineFormatter.FILLERS\<close> in source order (Japanese hesitation words, by code point).\<close>

definition FILLERS :: "ustr list" where
  "FILLERS =
    [[12360, 12540, 12392], [12360, 12387, 12392], [12360, 12540], [12354, 12398, 12540],
     [12354, 12398], [12358, 12540, 12435], [12358, 12435], [12414, 12353], [12414, 12354],
     [12381, 12398, 12540], [12394, 12435, 12363], [12394, 12435, 12390, 12356, 12358, 12363],
     [12411, 12425], [12354, 12540], [12435, 12540], [12435, 12392]]"

text \<open>
  \<open>(?:^|(?<=\s))filler(?:\s*|(?=..))\<close> without \<open>re.MULTILINE\<close>: the filler at the start of
  the string or after whitespace, with all the whitespace that follows it (the first
  alternative \<open>\s*\<close> always matches, so the lookahead is never tried).
\<close>

definition m_filler :: "ustr \<Rightarrow> matcher" where
  "m_filler filler prev s =
     (if (case prev of None \<Rightarrow> True | Some p \<Rightarrow> isspace p) \<and> starts_with filler s
      then Some (length filler + run_length isspace (drop (length filler) s))
      else None)"

text \<open>\<open>[ \<dots>]+\<close>: a run of ASCII spaces and ideographic spaces U+3000.\<close>

definition m_spaces :: matcher where
  "m_spaces prev s =
     (let n = run_length (\<lambda>c. c = 32 \<or> c = 12288) s in if 1 \<le> n then Some n else None)"

text \<open>
  \<open>\n\s*\n\s*\n\<close>: a newline and the whitespace after it up to the last newline of that
  whitespace, when the whitespace holds at least two newlines.
\<close>

definition m_blank_lines :: matcher where
  "m_blank_lines prev s =
     (case s of
        [] \<Rightarrow> None
      | d # r \<Rightarrow>
          (let w = takeWhile isspace r
           in if d = NL \<and> 2 \<le> length (filter (\<lambda>c. c = NL) w)
              then Some (1 + length (dropWhile (\<lambda>c. c \<noteq> NL) (rev w))) else None))"

fun remove_fillers :: "ustr list \<Rightarrow> ustr \<Rightarrow> ustr" where
  "remove_fillers [] text = text"
| "remove_fillers (f # fs) text = remove_fillers fs (del (m_filler f) text)"

text \<open>\<open>OfflineFormatter.format_text\<close>; \<open>format_mode\<close> is accepted and not used.\<close>

definition offline_format_text :: "ustr \<Rightarrow> ustr" where
  "offline_format_text raw_text =
     (let text = remove_fillers (sort_key (\<lambda>f. - int (length f)) FILLERS) raw_text;
          text = re_sub m_spaces (\<lambda>_. [32]) None text;
          text = re_sub m_blank_lines (\<lambda>_. [NL, NL]) None text
      in strip text)"

section \<open>Gesture detector (main.py, \<open>flags_changed_callback\<close>)\<close>

text \<open>
  The callback reads the clock with \<open>time.time()\<close>; the reading is an input of the model.
  Timestamps are real numbers: the rounding of floating-point subtraction is not modelled.
\<close>

record gesture =
  rcmd_press_time :: real
  rcmd_last_tap :: real
  rcmd_was_pressed :: bool

definition TAP_THRESHOLD :: real where
  "TAP_THRESHOLD = 0.25"

definition DOUBLE_TAP_INTERVAL :: real where
  "DOUBLE_TAP_INTERVAL = 0.5"

definition gesture_init :: gesture where
  "gesture_init = \<lparr>rcmd_press_time = 0, rcmd_last_tap = 0, rcmd_was_pressed = False\<rparr>"

text \<open>
  One invocation of the callback. \<open>rcmd_pressed\<close> is the decoded flag of the event, \<open>now\<close>
  the clock. The second component tells whether \<open>toggle_recording\<close> is called (a Trigger);
  the state is the one the callback leaves when that call returns.
\<close>

definition flags_changed_callback :: "gesture \<Rightarrow> bool \<Rightarrow> real \<Rightarrow> gesture \<times> bool" where
  "flags_changed_callback g rcmd_pressed now =
     (let (g1, trig) =
        (if rcmd_pressed \<and> \<not> rcmd_was_pressed g then
           (g\<lparr>rcmd_press_time := now\<rparr>, False)
         else if \<not> rcmd_pressed \<and> rcmd_was_pressed g then
           (if now - rcmd_press_time g < TAP_THRESHOLD then
              (if now - rcmd_last_tap g < DOUBLE_TAP_INTERVAL then
                 (g\<lparr>rcmd_last_tap := 0\<rparr>, True)
               else (g\<lparr>rcmd_last_tap := now\<rparr>, False))
            else (g, False))
         else (g, False))
      in (g1\<lparr>rcmd_was_pressed := rcmd_pressed\<rparr>, trig))"

text \<open>The detector over a stream of events; the result lists, per event, whether it triggered.\<close>

fun run_events :: "gesture \<Rightarrow> (bool \<times> real) list \<Rightarrow> gesture \<times> bool list" where
  "run_events g [] = (g, [])"
| "run_events g ((p, now) # evs) =
     (let (g1, t) = flags_changed_callback g p now;
          (g2, ts) = run_events g1 evs
      in (g2, t # ts))"

section \<open>Session controller (main.py, recorder.py)\<close>

datatype icon = ICON_IDLE | ICON_RECORDING | ICON_PROCESSING

text \<open>
  The three titles of the record button (start, stop, processing) and the notifications the
  program posts: busy, model loading, no speech, done with a preview, error with a message.
\<close>

datatype button_label = LabelStart | LabelStop | LabelProcessing

datatype notification =
  NoteBusy | NoteModelLoading | NoteNoSpeech | NoteDone ustr | NoteError ustr

datatype clip_outcome = Copied | CopyFailedQuietly | CopyRaised exn

record recorder =
  rec_recording :: bool
  rec_frames :: nat
  rec_stream :: bool

text \<open>
  The collaborators, as the outcomes of their calls: the audio stream, the WAV writer (the
  name of the temporary file), \<open>rumps.notification\<close>, the Whisper model, the frontmost
  application, \<open>str.lower\<close>, the Gemini client, the clipboard and the file writer.
\<close>

record world =
  stream_open :: "exn option"
  stream_close :: "exn option"
  wav_write :: "exn + ustr"
  notify_fails :: "notification \<Rightarrow> exn option"
  load_model :: "exn option"
  transcribe :: "exn + ustr"
  active_app :: ustr
  lower :: "ustr \<Rightarrow> ustr"
  gemini :: remote
  clipboard :: clip_outcome
  save_file :: "exn option"

record app =
  recording :: bool
  processing :: bool
  transcriber_loading :: bool
  transcriber_loaded :: bool
  title :: icon
  record_button_title :: button_label
  status :: status_msg
  notifications :: "notification list"
  audio :: recorder
  threads :: "ustr list"
  cleanups :: "ustr list"
  clipboard_text :: "ustr option"
  pastes :: nat
  saved :: "ustr list"
  fmt :: "formatter option"
  voice_cmd :: voice_command_processor
  profile_mgr :: app_profile_manager
  heap :: store
  auto_paste :: bool
  save_markdown :: bool

text \<open>
  \<open>rumps.notification\<close>: the list records the notifications posted; the call may raise.
\<close>

definition notify :: "world \<Rightarrow> notification \<Rightarrow> app \<Rightarrow> app \<times> exn option" where
  "notify w n s = (s\<lparr>notifications := notifications s @ [n]\<rparr>, notify_fails w n)"

definition audio_callback :: "recorder \<Rightarrow> recorder" where
  "audio_callback r = (if rec_recording r then r\<lparr>rec_frames := Suc (rec_frames r)\<rparr> else r)"

definition recorder_start :: "world \<Rightarrow> recorder \<Rightarrow> recorder \<times> exn option" where
  "recorder_start w r =
     (if rec_recording r then (r, None)
      else
        let r1 = r\<lparr>rec_frames := 0, rec_recording := True\<rparr>
        in case stream_open w of
             Some e \<Rightarrow> (r1, Some e)
           | None \<Rightarrow> (r1\<lparr>rec_stream := True\<rparr>, None))"

text \<open>\<open>AudioRecorder.stop\<close>: the path of the WAV file, the empty string when nothing was recorded.\<close>

definition recorder_stop :: "world \<Rightarrow> recorder \<Rightarrow> recorder \<times> (exn + ustr)" where
  "recorder_stop w r =
     (if \<not> rec_recording r then (r, Inr [])
      else
        let r1 = r\<lparr>rec_recording := False\<rparr>
        in case (if rec_stream r1 then stream_close w else None) of
             Some e \<Rightarrow> (r1, Inl e)
           | None \<Rightarrow>
               let r2 = r1\<lparr>rec_stream := False\<rparr>
               in if rec_frames r2 = 0 then (r2, Inr []) else (r2, wav_write w))"

definition start_recording :: "world \<Rightarrow> app \<Rightarrow> app \<times> exn option" where
  "start_recording w s =
     (let s1 = s\<lparr>recording := True, title := ICON_RECORDING, record_button_title := LabelStop,
                  status := StRecording\<rparr>;
          (r, x) = recorder_start w (audio s1)
      in (s1\<lparr>audio := r\<rparr>, x))"

text \<open>
  \<open>_stop_recording\<close>: starting the background thread is recorded in \<open>threads\<close>; the thread
  runs \<open>_process_audio\<close> on the path.
\<close>

definition stop_recording :: "world \<Rightarrow> app \<Rightarrow> app \<times> exn option" where
  "stop_recording w s =
     (let s1 = s\<lparr>recording := False, title := ICON_PROCESSING,
                  record_button_title := LabelProcessing, status := StStopping\<rparr>;
          (r, res) = recorder_stop w (audio s1);
          s2 = s1\<lparr>audio := r\<rparr>
      in case res of
           Inl e \<Rightarrow> (s2, Some e)
         | Inr audio_path \<Rightarrow>
             if audio_path = [] then
               (s2\<lparr>title := ICON_IDLE, record_button_title := LabelStart, status := StNoData\<rparr>,
                None)
             else (s2\<lparr>processing := True, threads := threads s2 @ [audio_path]\<rparr>, None))"

definition toggle_recording :: "world \<Rightarrow> app \<Rightarrow> app \<times> exn option" where
  "toggle_recording w s =
     (if processing s then notify w NoteBusy s
      else if transcriber_loading s then notify w NoteModelLoading s
      else if \<not> recording s then start_recording w s
      else stop_recording w s)"

section \<open>Processing run (main.py, \<open>_process_audio\<close>)\<close>

text \<open>Step 1 of the \<open>try\<close> body: load the model if needed, transcribe.\<close>

definition run_transcriber :: "world \<Rightarrow> app \<Rightarrow> app \<times> (exn + ustr)" where
  "run_transcriber w s =
     (if \<not> transcriber_loaded s then
        (case load_model w of
           Some e \<Rightarrow> (s\<lparr>status := StLoadingModel\<rparr>, Inl e)
         | None \<Rightarrow> (s\<lparr>status := StLoadingModel, transcriber_loaded := True\<rparr>, transcribe w))
      else (s, transcribe w))"

text \<open>Step 3: the Gemini formatter for a long text when there is one, else the offline one.\<close>

definition run_formatter :: "world \<Rightarrow> app \<Rightarrow> ustr \<Rightarrow> app \<times> (exn + ustr)" where
  "run_formatter w s processed_text =
     (case fmt s of
        Some fm \<Rightarrow>
          if 100 \<le> length processed_text then
            (case format_text (gemini w) fm processed_text of
               (fm', msgs, res) \<Rightarrow>
                 (s\<lparr>fmt := Some fm', status := (if msgs = [] then status s else last msgs)\<rparr>, res))
          else (s\<lparr>status := StOfflineDone\<rparr>, Inr (offline_format_text processed_text))
      | None \<Rightarrow> (s\<lparr>status := StOfflineDone\<rparr>, Inr (offline_format_text processed_text)))"

text \<open>Step 5: clipboard, paste, file, notification.\<close>

definition run_output :: "world \<Rightarrow> app \<Rightarrow> ustr \<Rightarrow> app \<times> exn option" where
  "run_output w s formatted_text =
     (case clipboard w of
        CopyRaised e \<Rightarrow> (s, Some e)
      | c \<Rightarrow>
          let s1 = (if c = Copied then s\<lparr>clipboard_text := Some formatted_text\<rparr> else s);
              s2 = (if auto_paste s1 then s1\<lparr>pastes := Suc (pastes s1), status := StPasted\<rparr>
                    else s1\<lparr>status := StCopied\<rparr>)
          in if save_markdown s2 \<and> save_file w \<noteq> None then (s2, save_file w)
             else
               let s3 = (if save_markdown s2 then s2\<lparr>saved := saved s2 @ [formatted_text]\<rparr>
                         else s2);
                   preview = take 80 formatted_text
                             @ (if 80 < length formatted_text then [46, 46, 46] else []);
                   (s4, x) = notify w (NoteDone preview) s3
               in case x of
                    Some e \<Rightarrow> (s4, Some e)
                  | None \<Rightarrow> (s4\<lparr>status := StIdle\<rparr>, None))"

text \<open>
  The \<open>try\<close> body: the state it leaves and the exception that leaves it, if any. An early
  \<open>return\<close> (no speech) leaves it without one.
\<close>

definition process_body :: "world \<Rightarrow> app \<Rightarrow> ustr \<Rightarrow> app \<times> exn option" where
  "process_body w s audio_path =
     (case run_transcriber w s of
        (s1, Inl e) \<Rightarrow> (s1, Some e)
      | (s1, Inr raw_text) \<Rightarrow>
          if strip raw_text = [] then notify w NoteNoSpeech (s1\<lparr>status := StNoSpeech\<rparr>)
          else
            let processed_text = process (voice_cmd s1) raw_text;
                (a, st) = get_profile (lower w) (active_app w) (profile_mgr s1) None (heap s1);
                profile = cells st a;
                app_name = dict_get profile ''_app_name'' (VStr []);
                s2 = s1\<lparr>heap := st\<rparr>;
                s3 = (if truthy app_name
                      then s2\<lparr>status := (case dict_get profile ''name'' app_name of
                                              VStr n \<Rightarrow> StDestination n
                                            | VBool b \<Rightarrow> StDestination [])\<rparr>
                      else s2)
            in case run_formatter w s3 processed_text of
                 (s4, Inl e) \<Rightarrow> (s4, Some e)
               | (s4, Inr formatted_text) \<Rightarrow>
                   run_output w s4 (apply_profile formatted_text profile))"

text \<open>
  \<open>_process_audio\<close>: the body, the handler for \<open>Exception\<close>, and the \<open>finally\<close> block.
  \<open>AudioRecorder.cleanup\<close> swallows the \<open>OSError\<close> of a failed unlink; \<open>cleanups\<close> records
  the paths it was called on. The second component is the exception that leaves the function.
  Every call of a collaborator may raise, as the \<open>world\<close> says; assignments to attributes
  and \<open>_update_status\<close> are taken not to raise.
\<close>

definition process_audio :: "world \<Rightarrow> app \<Rightarrow> ustr \<Rightarrow> app \<times> exn option" where
  "process_audio w s audio_path =
     (let (s1, raised) = process_body w s audio_path;
          (s2, pending) =
            (case raised of
               None \<Rightarrow> (s1, None)
             | Some e \<Rightarrow>
                 if is_Exception e then
                   notify w (NoteError (take 100 (message e))) (s1\<lparr>status := StError (message e)\<rparr>)
                 else (s1, Some e))
      in (s2\<lparr>processing := False, title := ICON_IDLE, record_button_title := LabelStart,
              cleanups := cleanups s2 @ [audio_path]\<rparr>,
          pending))"

text \<open>
  The session as \<open>VoiceNoteApp.__init__\<close> leaves it, from whether an API key is set and the
  four configuration switches; and a world in which every collaborator succeeds and the
  microphone hears nothing.
\<close>

definition app_init :: "bool \<Rightarrow> bool \<Rightarrow> bool \<Rightarrow> bool \<Rightarrow> bool \<Rightarrow> app" where
  "app_init has_api_key voice_commands_enabled app_profiles_enabled paste save =
     \<lparr>recording = False, processing = False, transcriber_loading = False,
      transcriber_loaded = False, title = ICON_IDLE, record_button_title = LabelStart,
      status = StIdle, notifications = [],
      audio = \<lparr>rec_recording = False, rec_frames = 0, rec_stream = False\<rparr>,
      threads = [], cleanups = [], clipboard_text = None, pastes = 0, saved = [],
      fmt = (if has_api_key then Some \<lparr>client_cached = False\<rparr> else None),
      voice_cmd = vcp_init voice_commands_enabled [],
      profile_mgr = apm_init [] app_profiles_enabled,
      heap = module_store, auto_paste = paste, save_markdown = save\<rparr>"

definition quiet_world :: world where
  "quiet_world =
     \<lparr>stream_open = None, stream_close = None, wav_write = Inr (asc ''/tmp/voicenote_1.wav''),
      notify_fails = (\<lambda>n. None), load_model = None, transcribe = Inr [], active_app = [],
      lower = ascii_lower,
      gemini = \<lparr>construct = None, import_types = None, generate = Inr None,
                 generate_plain = Inr None\<rparr>,
      clipboard = Copied, save_file = None\<rparr>"

section \<open>Auxiliary notions\<close>


section \<open>Gesture timing\<close>

text \<open>
  C7 (as stated). The claim says that a long hold discards the pending tap, so that a
  qualifying tap, a long hold and another qualifying tap emit no Trigger. The callback has no
  branch for a long hold: the first tap is released at 1000.125, the key is then held from
  1000.1875 to 1000.5 (0.3125 s, over the threshold), and the tap released at 1000.5625, less
  than 0.5 s after the first, triggers.
\<close>

theorem tap_hold_tap_triggers:
  "snd (run_events gesture_init
     [(True, 1000), (False, 1000.125), (True, 1000.1875), (False, 1000.5),
      (True, 1000.53125), (False, 1000.5625)])
   = [False, False, False, False, False, True]"
  by (simp add: gesture_init_def flags_changed_callback_def TAP_THRESHOLD_def
      DOUBLE_TAP_INTERVAL_def)

text \<open>
  C7 (amended). The release that ends a press of at least the tap threshold never triggers,
  and it changes nothing but the pressed flag: both timestamps stay, so a pending tap is kept.
  A qualifying tap that follows triggers exactly when its release is less than the double-tap
  interval after the pending tap.
\<close>

theorem long_hold_keeps_pending_tap:
  assumes "rcmd_was_pressed g" and "TAP_THRESHOLD \<le> t1 - rcmd_press_time g"
    and "t3 - t2 < TAP_THRESHOLD"
  shows "flags_changed_callback g False t1 = (g\<lparr>rcmd_was_pressed := False\<rparr>, False)
       \<and> snd (run_events g [(False, t1), (True, t2), (False, t3)])
           = [False, False, t3 - rcmd_last_tap g < DOUBLE_TAP_INTERVAL]"
  using assms by (simp add: flags_changed_callback_def)

theorem long_hold_keeps_pending_tap_witness:
  "rcmd_was_pressed \<lparr>rcmd_press_time = 1000.1875, rcmd_last_tap = 1000.125,
                       rcmd_was_pressed = True\<rparr>
   \<and> TAP_THRESHOLD \<le> 1000.5 - rcmd_press_time \<lparr>rcmd_press_time = 1000.1875,
                        rcmd_last_tap = 1000.125, rcmd_was_pressed = True\<rparr>
   \<and> 1000.5625 - 1000.53125 < TAP_THRESHOLD
   \<and> flags_changed_callback
         \<lparr>rcmd_press_time = 1000.1875, rcmd_last_tap = 1000.125, rcmd_was_pressed = True\<rparr>
         False 1000.5
       = (\<lparr>rcmd_press_time = 1000.1875, rcmd_last_tap = 1000.125, rcmd_was_pressed = True\<rparr>
            \<lparr>rcmd_was_pressed := False\<rparr>, False)
   \<and> snd (run_events
         \<lparr>rcmd_press_time = 1000.1875, rcmd_last_tap = 1000.125, rcmd_was_pressed = True\<rparr>
         [(False, 1000.5), (True, 1000.53125), (False, 1000.5625)])
       = [False, False,
          1000.5625 - rcmd_last_tap \<lparr>rcmd_press_time = 1000.1875, rcmd_last_tap = 1000.125,
                       rcmd_was_pressed = True\<rparr> < DOUBLE_TAP_INTERVAL]"
proof -
  let ?g = "\<lparr>rcmd_press_time = 1000.1875, rcmd_last_tap = 1000.125, rcmd_was_pressed = True\<rparr>"
  have h1: "rcmd_was_pressed ?g" by simp
  have h2: "TAP_THRESHOLD \<le> 1000.5 - rcmd_press_time ?g" by (simp add: TAP_THRESHOLD_def)
  have h3: "(1000.5625::real) - 1000.53125 < TAP_THRESHOLD" by (simp add: TAP_THRESHOLD_def)
  show ?thesis
    using long_hold_keeps_pending_tap [OF h1 h2 h3] h1 h2 h3 by blast
qed

section \<open>Mutual exclusion\<close>

text \<open>
  C8. While the processing flag is set, a trigger (the gesture detector and the menu item both
  call \<open>toggle_recording\<close>) posts the busy notification and changes nothing else: the
  recording flag, the processing flag, the recorder and the list of started threads are as
  before, and nothing is queued.
\<close>

theorem trigger_while_processing_rejected:
  "processing s \<Longrightarrow>
     fst (toggle_recording w s) = s\<lparr>notifications := notifications s @ [NoteBusy]\<rparr>"
  by (simp add: toggle_recording_def notify_def)

theorem trigger_while_processing_rejected_witness:
  "processing ((app_init True True True True True)\<lparr>processing := True\<rparr>)
   \<and> fst (toggle_recording quiet_world ((app_init True True True True True)\<lparr>processing := True\<rparr>))
       = (app_init True True True True True)\<lparr>processing := True, notifications := [NoteBusy]\<rparr>"
proof -
  have h: "processing ((app_init True True True True True)\<lparr>processing := True\<rparr>)" by simp
  show ?thesis
    using trigger_while_processing_rejected [OF h, of quiet_world]
    by (simp add: app_init_def)
qed

section \<open>Return to idle\<close>

lemma notify_cleanups: "cleanups (fst (notify w n s)) = cleanups s"
  by (simp add: notify_def)

lemma run_transcriber_cleanups: "cleanups (fst (run_transcriber w s)) = cleanups s"
  by (simp add: run_transcriber_def split: option.split)

lemma run_formatter_cleanups: "cleanups (fst (run_formatter w s t)) = cleanups s"
  by (simp add: run_formatter_def split: option.split prod.split)

lemma run_output_cleanups: "cleanups (fst (run_output w s t)) = cleanups s"
  by (simp add: run_output_def notify_def Let_def split: clip_outcome.split option.split)

lemma process_body_cleanups: "cleanups (fst (process_body w s p)) = cleanups s"
proof (cases "run_transcriber w s")
  case (Pair s1 r)
  have c1: "cleanups s1 = cleanups s"
    using run_transcriber_cleanups [of w s] Pair by simp
  show ?thesis
  proof (cases r)
    case (Inl e)
    with Pair c1 show ?thesis by (simp add: process_body_def)
  next
    case (Inr raw_text)
    show ?thesis
    proof (cases "strip raw_text = []")
      case True
      with Pair Inr c1 show ?thesis by (simp add: process_body_def notify_def)
    next
      case False
      obtain a st where
        g: "get_profile (lower w) (active_app w) (profile_mgr s1) None (heap s1) = (a, st)"
        by (cases "get_profile (lower w) (active_app w) (profile_mgr s1) None (heap s1)")
      define s3 where
        "s3 = (if truthy (dict_get (cells st a) ''_app_name'' (VStr []))
               then s1\<lparr>heap := st,
                       status := (case dict_get (cells st a) ''name''
                                         (dict_get (cells st a) ''_app_name'' (VStr [])) of
                                    VStr n \<Rightarrow> StDestination n
                                  | VBool b \<Rightarrow> StDestination [])\<rparr>
               else s1\<lparr>heap := st\<rparr>)"
      have c3: "cleanups s3 = cleanups s" by (simp add: s3_def c1)
      obtain s4 r4 where f: "run_formatter w s3 (process (voice_cmd s1) raw_text) = (s4, r4)"
        by (cases "run_formatter w s3 (process (voice_cmd s1) raw_text)")
      have c4: "cleanups s4 = cleanups s"
        using run_formatter_cleanups [of w s3 "process (voice_cmd s1) raw_text"] f c3 by simp
      have body: "process_body w s p =
          (case r4 of Inl e \<Rightarrow> (s4, Some e)
           | Inr formatted_text \<Rightarrow> run_output w s4 (apply_profile formatted_text (cells st a)))"
        using Pair Inr False g f by (simp add: process_body_def Let_def s3_def)
      show ?thesis
        using c4 run_output_cleanups [of w s4] by (cases r4) (simp_all add: body)
    qed
  qed
qed

text \<open>
  C9. Whatever the collaborators do in a processing run (the body completes, returns early,
  raises an exception that the handler catches, raises one that it does not catch, or the
  handler itself raises), the run leaves the processing flag cleared, the idle icon and the
  start label restored, and it has called the cleanup on the audio path, once, as its last
  recorded cleanup. The next trigger is therefore not rejected as busy: it is handled by the
  branches for an idle session.
\<close>

theorem process_audio_returns_to_idle:
  "processing (fst (process_audio w s p)) = False
   \<and> title (fst (process_audio w s p)) = ICON_IDLE
   \<and> record_button_title (fst (process_audio w s p)) = LabelStart
   \<and> cleanups (fst (process_audio w s p)) = cleanups s @ [p]
   \<and> toggle_recording w' (fst (process_audio w s p))
       = (if transcriber_loading (fst (process_audio w s p))
          then notify w' NoteModelLoading (fst (process_audio w s p))
          else if recording (fst (process_audio w s p))
          then stop_recording w' (fst (process_audio w s p))
          else start_recording w' (fst (process_audio w s p)))"
proof (cases "process_body w s p")
  case (Pair s1 raised)
  have c: "cleanups s1 = cleanups s"
    using process_body_cleanups [of w s p] Pair by simp
  have idle: "processing (fst (process_audio w s p)) = False"
    using Pair by (simp add: process_audio_def notify_def Let_def split: option.split)
  have rest: "title (fst (process_audio w s p)) = ICON_IDLE
   \<and> record_button_title (fst (process_audio w s p)) = LabelStart
   \<and> cleanups (fst (process_audio w s p)) = cleanups s @ [p]"
    using Pair c by (simp add: process_audio_def notify_def Let_def split: option.split)
  have next_trigger: "toggle_recording w' (fst (process_audio w s p))
       = (if transcriber_loading (fst (process_audio w s p))
          then notify w' NoteModelLoading (fst (process_audio w s p))
          else if recording (fst (process_audio w s p))
          then stop_recording w' (fst (process_audio w s p))
          else start_recording w' (fst (process_audio w s p)))"
    using idle by (simp add: toggle_recording_def)
  show ?thesis using idle rest next_trigger by blast
qed

section \<open>Profile resolution and the stored table\<close>

lemma upt16: "[0..<16] = [0, 1, 2, 3, 4, 5, 6, 7, 8, 9, 10, 11, 12, 13, 14, 15::nat]"
  by (simp add: upt_rec)

lemma builtin_refs: "profiles (apm_init [] en) =
  zip (map fst DEFAULT_PROFILES) [0, 1, 2, 3, 4, 5, 6, 7, 8, 9, 10, 11, 12, 13, 14, 15]"
  by (simp add: apm_init_def upt16)

lemma slack_ref: "map_of (profiles (apm_init [] True)) (asc ''Slack'') = Some 4"
  by (simp add: builtin_refs DEFAULT_PROFILES_def asc_def)

lemma get_profile_slack:
  "get_profile lw app (apm_init [] True) (Some (asc ''Slack'')) st
     = (4, annotate st 4 (asc ''Slack''))"
proof -
  have en: "apm_enabled (apm_init [] True)" by (simp add: apm_init_def)
  have ne: "asc ''Slack'' \<noteq> []" by (simp add: asc_def)
  show ?thesis using en ne slack_ref by (simp add: get_profile_def)
qed

text \<open>
  C4 (the code at the failing input). Resolving \<open>Slack\<close> on the table of \<open>__init__\<close>
  returns address 4, the reference the table itself holds, not a copy; the dict stored there
  has gained the key \<open>_app_name\<close>. When the caller then sets \<open>strip_markdown\<close> to \<open>False\<close>
  in the dict it received, the next resolution of \<open>Slack\<close> returns a profile whose
  \<open>strip_markdown\<close> is \<open>False\<close>, where the table said \<open>True\<close>. Only the path for an
  unmatched name copies (\<open>dict(FALLBACK_PROFILE)\<close>) before it annotates.
\<close>

theorem get_profile_mutates_table_entry:
  "get_profile lw app (apm_init [] True) (Some (asc ''Slack'')) module_store
     = (4, annotate module_store 4 (asc ''Slack''))
   \<and> cells (annotate module_store 4 (asc ''Slack'')) 4
       = cells module_store 4 @ [(''_app_name'', VStr (asc ''Slack''))]
   \<and> dict_get (cells module_store 4) ''strip_markdown'' (VBool False) = VBool True
   \<and> (let st1 = snd (get_profile lw app (apm_init [] True) (Some (asc ''Slack'')) module_store);
           st2 = st1\<lparr>cells := (cells st1)
                   (4 := dict_set (cells st1 4) ''strip_markdown'' (VBool False))\<rparr>;
           (a, st3) = get_profile lw app (apm_init [] True) (Some (asc ''Slack'')) st2
       in dict_get (cells st3 a) ''strip_markdown'' (VBool False)) = VBool False"
proof -
  have b: "cells (annotate module_store 4 (asc ''Slack'')) 4
       = cells module_store 4 @ [(''_app_name'', VStr (asc ''Slack''))]"
    by (simp add: annotate_def module_store_def DEFAULT_PROFILES_def mk_profile_def)
  have c: "dict_get (cells module_store 4) ''strip_markdown'' (VBool False) = VBool True"
    by (simp add: dict_get_def module_store_def DEFAULT_PROFILES_def mk_profile_def)
  have d: "(let st1 = annotate module_store 4 (asc ''Slack'');
           st2 = st1\<lparr>cells := (cells st1)
                   (4 := dict_set (cells st1 4) ''strip_markdown'' (VBool False))\<rparr>;
           (a, st3) = (4, annotate st2 4 (asc ''Slack''))
       in dict_get (cells st3 a) ''strip_markdown'' (VBool False)) = VBool False"
    by (simp add: dict_get_def annotate_def module_store_def DEFAULT_PROFILES_def
        mk_profile_def)
  show ?thesis using b c d by (simp add: get_profile_slack)
qed

section \<open>Failure of the remote formatter\<close>

text \<open>
  Once the client exists, a failing request does not leave \<open>format_text\<close>: every exception
  under \<open>Exception\<close> is caught and the raw text is returned.
\<close>

lemma request_failure_falls_back:
  assumes "client_cached fm \<or> construct rm = None" and "strip raw_text \<noteq> []"
    and "import_types rm = None" and "generate rm = Inl e" and "is_Exception e"
    and "\<not> is_ImportError e"
  shows "snd (snd (format_text rm fm raw_text)) = Inr raw_text"
  using assms by (auto simp: format_text_def get_client_def request_def split: option.splits)

lemma run_formatter_raises:
  assumes "fmt s = Some fm" and "\<not> client_cached fm" and "construct (gemini w) = Some e"
    and "100 \<le> length t" and "strip t \<noteq> []"
  shows "snd (run_formatter w s t) = Inl e"
  using assms by (simp add: run_formatter_def format_text_def get_client_def)

text \<open>
  C5 (the code at the failing input). The client cannot be built (the \<open>google.genai\<close>
  package is missing, so \<open>_get_client\<close> raises \<open>ImportError\<close>): \<open>format_text\<close> raises that
  error to its caller instead of returning the text it was given. \<open>_get_client()\<close> is called
  before the \<open>try\<close> statement whose handlers return the raw text.
\<close>

theorem client_construction_failure_raises:
  "format_text
     \<lparr>construct = Some (Exn ImportError (asc ''No module named google'')),
      import_types = None, generate = Inr (Some (asc ''formatted'')), generate_plain = Inr None\<rparr>
     \<lparr>client_cached = False\<rparr> (asc ''hello'')
   = (\<lparr>client_cached = False\<rparr>, [StFormatting],
      Inl (Exn ImportError (asc ''No module named google'')))"
  by (simp add: format_text_def get_client_def asc_def strip_def rstrip_def isspace_def)

section \<open>Fenced code blocks\<close>

lemmas md_eval = strip_markdown_def del_def unwrap_def m_heading_def m_wrap_def m_fence_def
  m_bullet_def m_numbered_def m_quote_def m_rule_def collapse_newlines_def m_newlines_def
  run_length_def at_bol_def starts_with_def isspace_def strip_def rstrip_def Let_def

text \<open>
  C6 (the code at the failing input). The text is a fenced block: three backquotes, a newline,
  \<open>code\<close>, a newline, three backquotes. The deletion of fenced blocks alone removes it
  whole. In \<open>_strip_markdown\<close> the inline-code step runs first and rewrites each fence of
  three backquotes to one backquote, so that the deletion step finds no fence: the content
  \<open>code\<close> stays in the result, between two backquotes.
\<close>

theorem fence_destroyed_before_deletion:
  "del m_fence [96, 96, 96, 10, 99, 111, 100, 101, 10, 96, 96, 96] = []
   \<and> unwrap [96] [96] [96, 96, 96, 10, 99, 111, 100, 101, 10, 96, 96, 96]
       = [96, 10, 99, 111, 100, 101, 10, 96]
   \<and> strip_markdown [96, 96, 96, 10, 99, 111, 100, 101, 10, 96, 96, 96]
       = [96, 10, 99, 111, 100, 101, 10, 96]"
  by (simp add: md_eval)

section \<open>Idempotence of the plain-text reducer\<close>








































section \<open>Voice-command substitution\<close>











lemmas vc_eval = process_def rule_sub_def cmd_match_def starts_with_def is_boundary_def
  isspace_def collapse_newlines_def m_newlines_def run_length_def rstrip_def Let_def

lemma sorted_builtin: "commands (vcp_init en []) =
    [([12467, 12540, 12489, 12502, 12525, 12483, 12463, 38283, 22987], [10, 96, 96, 96, 10]),
     ([12467, 12540, 12489, 12502, 12525, 12483, 12463, 32066, 20102], [10, 96, 96, 96, 10]),
     ([12452, 12531, 12521, 12452, 12531, 12467, 12540, 12489], [96]),
     ([31623, 26465, 26360, 12365, 38283, 22987], [10, 10]),
     ([26032, 12375, 12356, 27573, 33853], [10, 10]),
     ([27573, 33853, 22793, 12360, 12390], [10, 10]),
     ([12467, 12540, 12489, 38283, 22987], [10, 96, 96, 96, 10]),
     ([12467, 12540, 12489, 32066, 20102], [10, 96, 96, 96, 10]),
     ([27573, 33853, 22793, 12360], [10, 10]),
     ([25913, 34892, 12375, 12390], [10]),
     ([22823, 35211, 20986, 12375], [10, 10, 35, 32]),
     ([35211, 20986, 12375, 51], [10, 10, 35, 35, 35, 32]),
     ([35211, 20986, 12375, 50], [10, 10, 35, 35, 32]),
     ([35211, 20986, 12375, 49], [10, 10, 35, 32]),
     ([23567, 35211, 20986, 12375], [10, 10, 35, 35, 35, 32]),
     ([27425, 12398, 38917, 30446], [10, 45, 32]),
     ([22826, 23383, 38283, 22987], [42, 42]),
     ([22826, 23383, 32066, 20102], [42, 42]),
     ([26012, 20307, 38283, 22987], [42]),
     ([26012, 20307, 32066, 20102], [42]),
     ([21306, 20999, 12426, 32218], [10, 10, 45, 45, 45, 10, 10]),
     ([24341, 29992, 38283, 22987], [10, 10, 62, 32]),
     ([35211, 20986, 12375], [10, 10, 35, 35, 32]),
     ([12522, 12473, 12488], [10, 45, 32]),
     ([27700, 24179, 32218], [10, 10, 45, 45, 45, 10, 10]),
     ([25913, 34892], [10]),
     ([38917, 30446], [10, 45, 32]),
     ([22826, 23383], [42, 42]),
     ([24341, 29992], [10, 62, 32])]"
  by (simp add: vcp_init_def COMMANDS_def)

lemma en: "enabled (vcp_init True c)" by (simp add: vcp_init_def)





text \<open>
  The whole of \<open>process\<close> on the heading trigger followed by an ideographic comma and
  \<open>x\<close>: the comma is gone with the trigger, the result is \<open>## x\<close>.
\<close>

lemma heading_comma_example:
  "process (vcp_init True []) [35211, 20986, 12375, 12289, 120] = [35, 35, 32, 120]"
  by (simp add: vc_eval sorted_builtin en)









end
